theory Spec2Isabelle
  imports Complex_Main "HOL-Library.Sublist"
begin

section \<open>The product store service: request router\<close>

text \<open>
  A shallow embedding of \<^verbatim>\<open>service/routes.py\<close>, the Flask controller of the product
  store. Each handler becomes a function of the request and, where it reads or writes
  products, of the state of the data store. A handler that only reads returns its outcome;
  a handler that writes returns its outcome paired with the store it leaves behind.

  An outcome is either a response (the tuple the Python handler returns) or a failure:
  \<^verbatim>\<open>abort(code, description)\<close>, the \<^verbatim>\<open>AttributeError\<close> of a failed \<^verbatim>\<open>getattr\<close>, or an
  exception that the data layer raised and that no handler catches.

  Calls of \<^verbatim>\<open>app.logger\<close> are left out: they return nothing, do not touch the store and
  cannot change which branch a handler takes.
\<close>

subsection \<open>Python strings\<close>

text \<open>
  Strings are lists of 8-bit characters; a character outside ASCII is the sequence of its
  UTF-8 bytes.

  \<^verbatim>\<open>str.upper\<close> is built into Python and follows the Unicode case mapping, which also
  changes characters outside ASCII (U+017F, the long s, becomes \<^verbatim>\<open>S\<close>). The router
  therefore takes it as a parameter \<open>str_upper\<close>, and nothing is assumed of it except where
  a statement says so. What is known of it on ASCII text is \<open>ascii_upper\<close>: \<^verbatim>\<open>a\<close>..\<^verbatim>\<open>z\<close>
  become \<^verbatim>\<open>A\<close>..\<^verbatim>\<open>Z\<close> and every other character stays. \<open>ascii_lower\<close> is the converse; the
  router never calls it, it only serves to say that two ASCII strings differ in letter case
  at most.
\<close>

definition upper_char :: "char \<Rightarrow> char" where
  "upper_char c =
     (let n = (of_char c :: nat) in if 97 \<le> n \<and> n \<le> 122 then char_of (n - 32) else c)"

definition lower_char :: "char \<Rightarrow> char" where
  "lower_char c =
     (let n = (of_char c :: nat) in if 65 \<le> n \<and> n \<le> 90 then char_of (n + 32) else c)"

definition ascii_upper :: "string \<Rightarrow> string" where
  "ascii_upper s = map upper_char s"

definition ascii_lower :: "string \<Rightarrow> string" where
  "ascii_lower s = map lower_char s"

definition is_ascii :: "string \<Rightarrow> bool" where
  "is_ascii s = list_all (\<lambda>c. (of_char c :: nat) < 128) s"

text \<open>
  \<open>str_int\<close> is \<^verbatim>\<open>str(i)\<close> of a Python int, as an f-string formats it: decimal digits, a
  leading minus sign for a negative number.
\<close>

definition digit :: "nat \<Rightarrow> char" where
  "digit d = ''0123456789'' ! (d mod 10)"

fun str_nat :: "nat \<Rightarrow> string" where
  "str_nat n = (if n < 10 then [digit n] else str_nat (n div 10) @ [digit (n mod 10)])"

declare str_nat.simps [simp del]

definition str_int :: "int \<Rightarrow> string" where
  "str_int i = (if i < 0 then CHR ''-'' # str_nat (nat (- i)) else str_nat (nat i))"

text \<open>
  Truthiness of the value \<^verbatim>\<open>request.args.get(key)\<close> returns: \<^verbatim>\<open>None\<close> and the empty
  string are false, every other string is true. \<open>py_bool\<close> is \<^verbatim>\<open>bool(s)\<close> of a string.
\<close>

definition py_bool :: "string \<Rightarrow> bool" where
  "py_bool s = (s \<noteq> [])"

fun truthy :: "string option \<Rightarrow> bool" where
  "truthy None = False"
| "truthy (Some v) = py_bool v"

subsection \<open>Outcomes, requests and responses\<close>

datatype 'x failure =
    HTTPException nat string
  | AttributeError string
  | Raised 'x

datatype 'j payload =
    Json 'j
  | JsonList "'j list"
  | Text string

text \<open>
  A response is the tuple a handler returns: the body, the status code and the extra
  headers (empty where the handler returns a pair).
\<close>

type_synonym 'j response = "'j payload \<times> nat \<times> (string \<times> string) list"

text \<open>
  What a handler reads of the Flask request: the headers and the query arguments, each
  looked up by name, and the outcome of \<^verbatim>\<open>request.get_json()\<close>, which is the parsed body or
  the failure Flask raises for a body it cannot parse.
\<close>

record ('j, 'x) request =
  headers :: "string \<rightharpoonup> string"
  args :: "string \<rightharpoonup> string"
  get_json :: "'x failure + 'j"

text \<open>
  Modelled from the spec: \<^verbatim>\<open>service/common/status.py\<close> is not among the sources; the
  spec gives the numbers of the five status codes the router uses.
\<close>

definition HTTP_200_OK :: nat where
  "HTTP_200_OK = 200"

definition HTTP_201_CREATED :: nat where
  "HTTP_201_CREATED = 201"

definition HTTP_204_NO_CONTENT :: nat where
  "HTTP_204_NO_CONTENT = 204"

definition HTTP_404_NOT_FOUND :: nat where
  "HTTP_404_NOT_FOUND = 404"

definition HTTP_415_UNSUPPORTED_MEDIA_TYPE :: nat where
  "HTTP_415_UNSUPPORTED_MEDIA_TYPE = 415"

subsection \<open>The data layer the router calls\<close>

text \<open>
  Modelled from the spec: the class \<^verbatim>\<open>Product\<close> of \<^verbatim>\<open>service/models.py\<close> is not among
  the sources. The record has the six fields the spec lists (section 3). The id is \<open>None\<close>
  for a product the store has not yet persisted, as for a fresh \<^verbatim>\<open>Product()\<close>.
\<close>

record 'c product =
  id' :: "int option"
  name :: string
  description :: string
  price :: rat
  available :: bool
  category :: 'c

text \<open>
  The methods of \<^verbatim>\<open>Product\<close> and the attribute lookup on \<^verbatim>\<open>Category\<close> are parameters of
  the router: one field for each call \<^verbatim>\<open>routes.py\<close> makes. \<open>'s\<close> is the state of the data
  store, \<open>'j\<close> a JSON value, \<open>'c\<close> a category and \<open>'x\<close> an exception of the data layer.
  The queries read the store. \<open>deserialize\<close> returns the product with the body written
  onto it, or raises. \<open>create\<close>, \<open>update\<close> and \<open>delete\<close> return the store they leave behind
  and may raise; \<open>create\<close> also returns the product with the id the store gave it.
  \<open>Category_getattr n\<close> is \<^verbatim>\<open>getattr(Category, n)\<close>: the member of that name, or \<open>None\<close>
  where Python raises \<^verbatim>\<open>AttributeError\<close>.
\<close>

record ('s, 'j, 'c, 'x) models =
  Product_new :: "'c product"
  Product_deserialize :: "'c product \<Rightarrow> 'j \<Rightarrow> 'x + 'c product"
  Product_serialize :: "'c product \<Rightarrow> 'j"
  Product_create :: "'c product \<Rightarrow> 's \<Rightarrow> ('x + 'c product) \<times> 's"
  Product_update :: "'c product \<Rightarrow> 's \<Rightarrow> ('x + unit) \<times> 's"
  Product_delete :: "'c product \<Rightarrow> 's \<Rightarrow> ('x + unit) \<times> 's"
  Product_find :: "int \<Rightarrow> 's \<Rightarrow> 'c product option"
  Product_find_by_name :: "string \<Rightarrow> 's \<Rightarrow> 'c product list"
  Product_find_by_category :: "'c \<Rightarrow> 's \<Rightarrow> 'c product list"
  Product_find_by_availability :: "bool \<Rightarrow> 's \<Rightarrow> 'c product list"
  Product_all :: "'s \<Rightarrow> 'c product list"
  Category_getattr :: "string \<Rightarrow> 'c option"

subsection \<open>The handlers of routes.py\<close>

definition check_content_type :: "string \<Rightarrow> ('j, 'x) request \<Rightarrow> 'x failure + unit" where
  "check_content_type content_type r =
     (case headers r ''Content-Type'' of
        None \<Rightarrow>
          Inl (HTTPException HTTP_415_UNSUPPORTED_MEDIA_TYPE
                 (''Content-Type must be '' @ content_type))
      | Some v \<Rightarrow>
          if v = content_type then Inr ()
          else Inl (HTTPException HTTP_415_UNSUPPORTED_MEDIA_TYPE
                      (''Content-Type must be '' @ content_type)))"

definition create_products ::
  "('s, 'j, 'c, 'x) models \<Rightarrow> ('j, 'x) request \<Rightarrow> 's \<Rightarrow> ('x failure + 'j response) \<times> 's" where
  "create_products M r s =
     (case check_content_type ''application/json'' r of
        Inl e \<Rightarrow> (Inl e, s)
      | Inr _ \<Rightarrow>
          (case get_json r of
             Inl e \<Rightarrow> (Inl e, s)
           | Inr data \<Rightarrow>
               (case Product_deserialize M (Product_new M) data of
                  Inl x \<Rightarrow> (Inl (Raised x), s)
                | Inr product \<Rightarrow>
                    (case Product_create M product s of
                       (Inl x, s') \<Rightarrow> (Inl (Raised x), s')
                     | (Inr created, s') \<Rightarrow>
                         (Inr (Json (Product_serialize M created), HTTP_201_CREATED,
                               [(''Location'', ''/'')]), s')))))"

definition get_all_products ::
  "(string \<Rightarrow> string) \<Rightarrow> ('s, 'j, 'c, 'x) models \<Rightarrow> ('j, 'x) request \<Rightarrow> 's \<Rightarrow>
     'x failure + 'j response" where
  "get_all_products str_upper M r s =
     (let name_arg = args r ''name'';
          cat_arg = args r ''category'';
          avail_arg = args r ''available''
      in case
           (if truthy name_arg then Inr (Product_find_by_name M (the name_arg) s)
            else if truthy cat_arg then
              (case Category_getattr M (str_upper (the cat_arg)) of
                 None \<Rightarrow> Inl (AttributeError (str_upper (the cat_arg)))
               | Some enum_val \<Rightarrow> Inr (Product_find_by_category M enum_val s))
            else if truthy avail_arg then
              Inr (Product_find_by_availability M (py_bool (the avail_arg)) s)
            else Inr (Product_all M s))
         of
           Inl e \<Rightarrow> Inl e
         | Inr products \<Rightarrow>
             Inr (JsonList (map (Product_serialize M) products), HTTP_200_OK, []))"

definition get_product ::
  "('s, 'j, 'c, 'x) models \<Rightarrow> int \<Rightarrow> 's \<Rightarrow> 'x failure + 'j response" where
  "get_product M product_id s =
     (case Product_find M product_id s of
        None \<Rightarrow>
          Inl (HTTPException HTTP_404_NOT_FOUND
                 (''Product with id ['' @ str_int product_id @ ''] not found''))
      | Some found \<Rightarrow> Inr (Json (Product_serialize M found), HTTP_200_OK, []))"

definition update_product ::
  "('s, 'j, 'c, 'x) models \<Rightarrow> int \<Rightarrow> ('j, 'x) request \<Rightarrow> 's \<Rightarrow>
     ('x failure + 'j response) \<times> 's" where
  "update_product M product_id r s =
     (case check_content_type ''application/json'' r of
        Inl e \<Rightarrow> (Inl e, s)
      | Inr _ \<Rightarrow>
          (case Product_find M product_id s of
             None \<Rightarrow>
               (Inl (HTTPException HTTP_404_NOT_FOUND
                       (''Product with id ['' @ str_int product_id @ ''] not found'')), s)
           | Some found \<Rightarrow>
               (case get_json r of
                  Inl e \<Rightarrow> (Inl e, s)
                | Inr data \<Rightarrow>
                    (case Product_deserialize M found data of
                       Inl x \<Rightarrow> (Inl (Raised x), s)
                     | Inr found' \<Rightarrow>
                         (let found'' = found'\<lparr>id' := Some product_id\<rparr> in
                          case Product_update M found'' s of
                            (Inl x, s') \<Rightarrow> (Inl (Raised x), s')
                          | (Inr _, s') \<Rightarrow>
                              (Inr (Json (Product_serialize M found''), HTTP_200_OK, []),
                               s'))))))"

definition delete_product ::
  "('s, 'j, 'c, 'x) models \<Rightarrow> int \<Rightarrow> 's \<Rightarrow> ('x failure + 'j response) \<times> 's" where
  "delete_product M product_id s =
     (case Product_find M product_id s of
        None \<Rightarrow>
          (Inl (HTTPException HTTP_404_NOT_FOUND
                  (''Product with product_id ['' @ str_int product_id @ ''] not found'')), s)
      | Some found \<Rightarrow>
          (case Product_delete M found s of
             (Inl x, s') \<Rightarrow> (Inl (Raised x), s')
           | (Inr _, s') \<Rightarrow> (Inr (Text [], HTTP_204_NO_CONTENT, []), s')))"

subsection \<open>A data layer after the spec\<close>

text \<open>
  Modelled from the spec: \<^verbatim>\<open>service/models.py\<close> (the classes \<^verbatim>\<open>Category\<close> and \<^verbatim>\<open>Product\<close>
  with its persistence and its JSON mapping) is not among the sources. What follows is one
  data layer that does what the spec says of it; it instantiates the parameters of the
  router wherever a theorem is evaluated on a concrete request.

  The spec calls \<^verbatim>\<open>Category\<close> a closed enumeration and names three of its members, whose
  names are in upper case; the model has those three.
\<close>

datatype category = UNKNOWN | FOOD | CLOTHS

fun category_name :: "category \<Rightarrow> string" where
  "category_name UNKNOWN = ''UNKNOWN''"
| "category_name FOOD = ''FOOD''"
| "category_name CLOTHS = ''CLOTHS''"

definition category_getattr :: "string \<Rightarrow> category option" where
  "category_getattr n = map_of (map (\<lambda>c. (category_name c, c)) [UNKNOWN, FOOD, CLOTHS]) n"

text \<open>
  Modelled from the spec: a JSON value as the body parser returns it. An object is the list
  of its members, each key once.
\<close>

datatype json =
    JNull
  | JBool bool
  | JNum rat
  | JStr string
  | JArr "json list"
  | JObj "(string \<times> json) list"

fun get_str :: "(string \<times> json) list \<Rightarrow> string \<Rightarrow> string option" where
  "get_str kv k = (case map_of kv k of Some (JStr v) \<Rightarrow> Some v | _ \<Rightarrow> None)"

fun get_num :: "(string \<times> json) list \<Rightarrow> string \<Rightarrow> rat option" where
  "get_num kv k = (case map_of kv k of Some (JNum v) \<Rightarrow> Some v | _ \<Rightarrow> None)"

fun get_bool :: "(string \<times> json) list \<Rightarrow> string \<Rightarrow> bool option" where
  "get_bool kv k = (case map_of kv k of Some (JBool v) \<Rightarrow> Some v | _ \<Rightarrow> None)"

text \<open>
  Modelled from the spec: the one exception of the validation layer, raised for a body
  that is not product JSON, names no category or has a negative price (the invariant of
  section 3).
\<close>

datatype model_error = DataValidationError

text \<open>
  Modelled from the spec: the data store is the list of persisted products in insertion
  order and the next id to hand out.
\<close>

record store =
  rows :: "category product list"
  next_id :: int

text \<open>
  Modelled from the spec: a fresh \<^verbatim>\<open>Product()\<close> has no id; \<open>deserialize\<close> overwrites every
  other field.
\<close>

definition spec_new :: "category product" where
  "spec_new =
     \<lparr>id' = None, name = [], description = [], price = 0, available = False,
      category = UNKNOWN\<rparr>"

text \<open>
  Modelled from the spec: \<open>deserialize\<close> writes the five mutable fields of the body onto the
  product and leaves the id alone. The shape of product JSON is that of section 6.
\<close>

definition spec_deserialize :: "category product \<Rightarrow> json \<Rightarrow> model_error + category product" where
  "spec_deserialize p data =
     (case data of
        JObj kv \<Rightarrow>
          (case get_str kv ''name'' of None \<Rightarrow> Inl DataValidationError | Some n \<Rightarrow>
           case get_str kv ''description'' of None \<Rightarrow> Inl DataValidationError | Some d \<Rightarrow>
           case get_num kv ''price'' of None \<Rightarrow> Inl DataValidationError | Some pr \<Rightarrow>
           case get_bool kv ''available'' of None \<Rightarrow> Inl DataValidationError | Some a \<Rightarrow>
           case get_str kv ''category'' of None \<Rightarrow> Inl DataValidationError | Some cn \<Rightarrow>
           case category_getattr cn of None \<Rightarrow> Inl DataValidationError | Some c \<Rightarrow>
             if pr < 0 then Inl DataValidationError
             else Inr (p\<lparr>name := n, description := d, price := pr, available := a,
                         category := c\<rparr>))
      | _ \<Rightarrow> Inl DataValidationError)"

definition spec_serialize :: "category product \<Rightarrow> json" where
  "spec_serialize p =
     JObj [(''id'', (case id' p of None \<Rightarrow> JNull | Some i \<Rightarrow> JNum (of_int i))),
           (''name'', JStr (name p)),
           (''description'', JStr (description p)),
           (''price'', JNum (price p)),
           (''available'', JBool (available p)),
           (''category'', JStr (category_name (category p)))]"

text \<open>
  Modelled from the spec: \<open>create\<close> gives the product the next id and appends it;
  \<open>update\<close> replaces the row that has the product's id; \<open>delete\<close> removes it; \<open>find\<close> looks a
  row up by id; the three filters and \<open>all\<close> return rows in the store's order. None of them
  raises.
\<close>

definition spec_create :: "category product \<Rightarrow> store \<Rightarrow> (model_error + category product) \<times> store" where
  "spec_create p s =
     (let created = p\<lparr>id' := Some (next_id s)\<rparr>
      in (Inr created, s\<lparr>rows := rows s @ [created], next_id := next_id s + 1\<rparr>))"

definition spec_update :: "category product \<Rightarrow> store \<Rightarrow> (model_error + unit) \<times> store" where
  "spec_update p s = (Inr (), s\<lparr>rows := map (\<lambda>q. if id' q = id' p then p else q) (rows s)\<rparr>)"

definition spec_delete :: "category product \<Rightarrow> store \<Rightarrow> (model_error + unit) \<times> store" where
  "spec_delete p s = (Inr (), s\<lparr>rows := filter (\<lambda>q. id' q \<noteq> id' p) (rows s)\<rparr>)"

definition spec_find :: "int \<Rightarrow> store \<Rightarrow> category product option" where
  "spec_find i s = List.find (\<lambda>q. id' q = Some i) (rows s)"

definition spec_models :: "(store, json, category, model_error) models" where
  "spec_models =
     \<lparr>Product_new = spec_new,
      Product_deserialize = spec_deserialize,
      Product_serialize = spec_serialize,
      Product_create = spec_create,
      Product_update = spec_update,
      Product_delete = spec_delete,
      Product_find = spec_find,
      Product_find_by_name = (\<lambda>n s. filter (\<lambda>q. name q = n) (rows s)),
      Product_find_by_category = (\<lambda>c s. filter (\<lambda>q. category q = c) (rows s)),
      Product_find_by_availability = (\<lambda>b s. filter (\<lambda>q. available q = b) (rows s)),
      Product_all = rows,
      Category_getattr = category_getattr\<rparr>"

subsection \<open>Sample requests and stores\<close>

definition shirt :: "category product" where
  "shirt =
     \<lparr>id' = Some 1, name = ''shirt'', description = ''blue'', price = 20, available = True,
      category = CLOTHS\<rparr>"

definition bread :: "category product" where
  "bread =
     \<lparr>id' = Some 2, name = ''bread'', description = ''rye'', price = 3, available = False,
      category = FOOD\<rparr>"

definition empty_store :: store where
  "empty_store = \<lparr>rows = [], next_id = 1\<rparr>"

definition two_products :: store where
  "two_products = \<lparr>rows = [shirt, bread], next_id = 3\<rparr>"

text \<open>A product body that also carries an id of its own, 999.\<close>

definition hat_json :: json where
  "hat_json =
     JObj [(''id'', JNum 999), (''name'', JStr ''hat''), (''description'', JStr ''wool''),
           (''price'', JNum 12), (''available'', JBool True), (''category'', JStr ''CLOTHS'')]"

definition json_request :: "json \<Rightarrow> (json, model_error) request" where
  "json_request b =
     \<lparr>headers = [''Content-Type'' \<mapsto> ''application/json''], args = Map.empty,
      get_json = Inr b\<rparr>"

definition plain_request :: "json \<Rightarrow> (json, model_error) request" where
  "plain_request b =
     \<lparr>headers = [''Content-Type'' \<mapsto> ''text/plain''], args = Map.empty, get_json = Inr b\<rparr>"

definition bare_request :: "json \<Rightarrow> (json, model_error) request" where
  "bare_request b = \<lparr>headers = Map.empty, args = Map.empty, get_json = Inr b\<rparr>"

definition query :: "(string \<times> string) list \<Rightarrow> (json, model_error) request" where
  "query kv = \<lparr>headers = Map.empty, args = map_of kv, get_json = Inr JNull\<rparr>"

text \<open>
  An upper-casing function for the sample requests. Beyond ASCII it knows one letter, the
  long s (U+017F, in UTF-8 the bytes C5 BF), whose capital is \<^verbatim>\<open>S\<close> as in Python.
\<close>

fun long_s_upper :: "string \<Rightarrow> string" where
  "long_s_upper [] = []"
| "long_s_upper [a] = [upper_char a]"
| "long_s_upper (a # b # cs) =
     (if a = CHR 0xC5 \<and> b = CHR 0xBF then CHR ''S'' # long_s_upper cs
      else upper_char a # long_s_upper (b # cs))"

declare long_s_upper.simps [simp del]

section \<open>Properties of the router\<close>

subsection \<open>Auxiliary facts\<close>

lemmas status_defs = HTTP_200_OK_def HTTP_201_CREATED_def HTTP_204_NO_CONTENT_def
  HTTP_404_NOT_FOUND_def HTTP_415_UNSUPPORTED_MEDIA_TYPE_def

lemma check_content_type_reject:
  "headers r ''Content-Type'' \<noteq> Some ct \<Longrightarrow>
     check_content_type ct r = Inl (HTTPException 415 (''Content-Type must be '' @ ct))"
  by (simp add: check_content_type_def status_defs split: option.splits)

lemma check_content_type_accept:
  "headers r ''Content-Type'' = Some ct \<Longrightarrow> check_content_type ct r = Inr ()"
  by (simp add: check_content_type_def)

lemma upper_lower_char: "upper_char (lower_char c) = upper_char c"
  by (simp add: upper_char_def lower_char_def Let_def)

lemma upper_lower: "ascii_upper (ascii_lower s) = ascii_upper s"
  by (simp add: ascii_upper_def ascii_lower_def upper_lower_char)

lemma same_letters_upper:
  assumes "ascii_lower a = ascii_lower b"
  shows "ascii_upper a = ascii_upper b"
proof -
  have "ascii_upper a = ascii_upper (ascii_lower a)" by (simp add: upper_lower)
  also have "\<dots> = ascii_upper (ascii_lower b)" using assms by simp
  also have "\<dots> = ascii_upper b" by (simp add: upper_lower)
  finally show ?thesis .
qed

lemma long_s_upper_ascii: "is_ascii t \<Longrightarrow> long_s_upper t = ascii_upper t"
  by (induction t rule: long_s_upper.induct)
    (auto simp add: long_s_upper.simps is_ascii_def ascii_upper_def)

lemma list_by_name:
  "args r ''name'' = Some n \<Longrightarrow> n \<noteq> [] \<Longrightarrow>
     get_all_products str_upper M r s =
       Inr (JsonList (map (Product_serialize M) (Product_find_by_name M n s)), 200, [])"
  by (simp add: get_all_products_def status_defs py_bool_def)

lemma list_by_category:
  "\<not> truthy (args r ''name'') \<Longrightarrow> args r ''category'' = Some c \<Longrightarrow> c \<noteq> [] \<Longrightarrow>
     get_all_products str_upper M r s =
       (case Category_getattr M (str_upper c) of
          None \<Rightarrow> Inl (AttributeError (str_upper c))
        | Some e \<Rightarrow>
            Inr (JsonList (map (Product_serialize M) (Product_find_by_category M e s)), 200, []))"
  by (simp add: get_all_products_def status_defs py_bool_def split: option.splits)

lemma list_by_availability:
  "\<not> truthy (args r ''name'') \<Longrightarrow> \<not> truthy (args r ''category'') \<Longrightarrow>
   args r ''available'' = Some a \<Longrightarrow> a \<noteq> [] \<Longrightarrow>
     get_all_products str_upper M r s =
       Inr (JsonList (map (Product_serialize M) (Product_find_by_availability M True s)),
            200, [])"
  by (simp add: get_all_products_def status_defs py_bool_def)

lemma list_all:
  "\<not> truthy (args r ''name'') \<Longrightarrow> \<not> truthy (args r ''category'') \<Longrightarrow>
   \<not> truthy (args r ''available'') \<Longrightarrow>
     get_all_products str_upper M r s =
       Inr (JsonList (map (Product_serialize M) (Product_all M s)), 200, [])"
  by (simp add: get_all_products_def status_defs)

lemma not_found_names_id:
  "sublist (str_int product_id) (''Product with id ['' @ str_int product_id @ ''] not found'')"
  by (rule sublist_appendI)

lemma truthy_value: "truthy a \<Longrightarrow> \<exists>v. a = Some v \<and> v \<noteq> []"
  by (cases a) (simp_all add: py_bool_def)

lemma get_all_products_reads:
  assumes n: "args r' ''name'' = args r ''name'' \<or>
      (\<not> truthy (args r ''name'') \<and> \<not> truthy (args r' ''name''))"
    and c: "args r' ''category'' = args r ''category'' \<or>
      (\<not> truthy (args r ''category'') \<and> \<not> truthy (args r' ''category''))"
    and a: "args r' ''available'' = args r ''available'' \<or>
      (\<not> truthy (args r ''available'') \<and> \<not> truthy (args r' ''available''))"
  shows "get_all_products str_upper M r' s = get_all_products str_upper M r s"
proof (cases "truthy (args r ''name'')")
  case True
  with n have same: "args r' ''name'' = args r ''name''" by blast
  from True obtain v where "args r ''name'' = Some v" and "v \<noteq> []"
    using truthy_value by blast
  with same show ?thesis by (simp add: list_by_name)
next
  case noname: False
  with n have noname': "\<not> truthy (args r' ''name'')" by auto
  show ?thesis
  proof (cases "truthy (args r ''category'')")
    case True
    with c have same: "args r' ''category'' = args r ''category''" by blast
    from True obtain v where "args r ''category'' = Some v" and "v \<noteq> []"
      using truthy_value by blast
    with same noname noname' show ?thesis by (simp add: list_by_category)
  next
    case nocat: False
    with c have nocat': "\<not> truthy (args r' ''category'')" by auto
    show ?thesis
    proof (cases "truthy (args r ''available'')")
      case True
      with a have same: "args r' ''available'' = args r ''available''" by blast
      from True obtain v where "args r ''available'' = Some v" and "v \<noteq> []"
        using truthy_value by blast
      with same noname noname' nocat nocat' show ?thesis
        using list_by_availability [of r v str_upper M s] list_by_availability [of r' v str_upper M s] by simp
    next
      case False
      with a have "\<not> truthy (args r' ''available'')" by auto
      with False noname noname' nocat nocat' show ?thesis by (simp add: list_all)
    qed
  qed
qed

lemma spec_find_id:
  "spec_find i s = Some found \<Longrightarrow> id' found = Some i"
  by (auto simp add: spec_find_def find_Some_iff)

lemma spec_find_after_delete:
  "spec_find i (s\<lparr>rows := filter (\<lambda>q. id' q \<noteq> Some i) (rows s)\<rparr>) = None"
  by (simp add: spec_find_def find_None_iff)

text \<open>
  On the data layer modelled after the spec, the record that \<open>update\<close> persists under the
  id of the path is the one a later lookup of that id finds.
\<close>

lemma find_after_replace:
  assumes "List.find (\<lambda>q. id' q = Some i) xs = Some found" and "id' p = Some i"
  shows "List.find (\<lambda>q. id' q = Some i) (map (\<lambda>q. if id' q = id' p then p else q) xs) = Some p"
  using assms by (induction xs) (auto split: if_splits)

lemma spec_update_then_find:
  assumes "spec_find i s = Some found"
  shows "spec_find i (snd (spec_update (p\<lparr>id' := Some i\<rparr>) s)) = Some (p\<lparr>id' := Some i\<rparr>)"
  using find_after_replace [of i "rows s" found "p\<lparr>id' := Some i\<rparr>"] assms
  by (simp add: spec_find_def spec_update_def)

subsection \<open>The claims\<close>

text \<open>
  Claim C1. A \<^verbatim>\<open>POST /products\<close> or \<^verbatim>\<open>PUT /products/{id}\<close> request whose
  \<^verbatim>\<open>Content-Type\<close> header is absent, or is any string other than \<^verbatim>\<open>application/json\<close>, is
  aborted with HTTP 415 and the message \<^verbatim>\<open>Content-Type must be application/json\<close>, and the
  data store is as it was: no product is created or changed. The outcome is the same for
  every body \<open>b\<close> the request may carry and for every data layer \<open>M\<close>, so neither the body
  nor the store is consulted before the abort.
\<close>

theorem content_type_guard_rejects:
  assumes "headers r ''Content-Type'' \<noteq> Some ''application/json''"
  shows "create_products M (r\<lparr>get_json := b\<rparr>) s =
           (Inl (HTTPException 415 ''Content-Type must be application/json''), s)
       \<and> update_product M product_id (r\<lparr>get_json := b\<rparr>) s =
           (Inl (HTTPException 415 ''Content-Type must be application/json''), s)"
proof -
  from assms have "headers (r\<lparr>get_json := b\<rparr>) ''Content-Type'' \<noteq> Some ''application/json''"
    by simp
  then have "check_content_type ''application/json'' (r\<lparr>get_json := b\<rparr>) =
      Inl (HTTPException 415 ''Content-Type must be application/json'')"
    using check_content_type_reject [of "r\<lparr>get_json := b\<rparr>" "''application/json''"] by simp
  then show ?thesis
    by (simp add: create_products_def update_product_def)
qed

theorem content_type_guard_rejects_witness:
  "headers (plain_request hat_json) ''Content-Type'' \<noteq> Some ''application/json''
   \<and> create_products spec_models (plain_request hat_json) empty_store =
       (Inl (HTTPException 415 ''Content-Type must be application/json''), empty_store)
   \<and> update_product spec_models 1 (plain_request hat_json) two_products =
       (Inl (HTTPException 415 ''Content-Type must be application/json''), two_products)
   \<and> headers (bare_request hat_json) ''Content-Type'' \<noteq> Some ''application/json''
   \<and> create_products spec_models (bare_request hat_json) empty_store =
       (Inl (HTTPException 415 ''Content-Type must be application/json''), empty_store)"
proof -
  have p: "headers (plain_request hat_json) ''Content-Type'' \<noteq> Some ''application/json''"
    by (simp add: plain_request_def)
  have q: "headers (bare_request hat_json) ''Content-Type'' \<noteq> Some ''application/json''"
    by (simp add: bare_request_def)
  have e1: "plain_request hat_json\<lparr>get_json := Inr hat_json\<rparr> = plain_request hat_json"
    by (simp add: plain_request_def)
  have e2: "bare_request hat_json\<lparr>get_json := Inr hat_json\<rparr> = bare_request hat_json"
    by (simp add: bare_request_def)
  show ?thesis
    using p q
      content_type_guard_rejects [OF p, of spec_models "Inr hat_json" empty_store 1]
      content_type_guard_rejects [OF p, of spec_models "Inr hat_json" two_products 1]
      content_type_guard_rejects [OF q, of spec_models "Inr hat_json" empty_store 1]
    by (simp only: e1 e2) simp
qed

text \<open>
  Claim C2. A \<^verbatim>\<open>PUT /products/{id}\<close> request with content type \<^verbatim>\<open>application/json\<close>, for
  an id the store knows, whose body parses and deserializes onto the record found: the
  record handed to the store for persisting, and serialized into the response with HTTP
  200, is the deserialized record \<open>p\<close> with its id set to the id of the path. This holds for
  every \<open>p\<close>, so also when deserializing left an id from the body in it. The other five
  fields are those the body gave \<open>p\<close>.
\<close>

theorem update_forces_path_id:
  assumes "headers r ''Content-Type'' = Some ''application/json''"
    and "Product_find M product_id s = Some found"
    and "get_json r = Inr body"
    and "Product_deserialize M found body = Inr p"
    and "Product_update M (p\<lparr>id' := Some product_id\<rparr>) s = (Inr (), s')"
  shows "update_product M product_id r s =
           (Inr (Json (Product_serialize M (p\<lparr>id' := Some product_id\<rparr>)), 200, []), s')
       \<and> id' (p\<lparr>id' := Some product_id\<rparr>) = Some product_id
       \<and> name (p\<lparr>id' := Some product_id\<rparr>) = name p
       \<and> description (p\<lparr>id' := Some product_id\<rparr>) = description p
       \<and> price (p\<lparr>id' := Some product_id\<rparr>) = price p
       \<and> available (p\<lparr>id' := Some product_id\<rparr>) = available p
       \<and> category (p\<lparr>id' := Some product_id\<rparr>) = category p"
  using assms
  by (simp add: update_product_def check_content_type_accept status_defs)

theorem update_forces_path_id_witness:
  "headers (json_request hat_json) ''Content-Type'' = Some ''application/json''
   \<and> Product_find spec_models 1 two_products = Some shirt
   \<and> get_json (json_request hat_json) = Inr hat_json
   \<and> Product_deserialize spec_models shirt hat_json =
       Inr \<lparr>id' = Some 1, name = ''hat'', description = ''wool'', price = 12,
            available = True, category = CLOTHS\<rparr>
   \<and> Product_update spec_models
        \<lparr>id' = Some 1, name = ''hat'', description = ''wool'', price = 12,
         available = True, category = CLOTHS\<rparr> two_products =
       (Inr (), \<lparr>rows = [\<lparr>id' = Some 1, name = ''hat'', description = ''wool'', price = 12,
                           available = True, category = CLOTHS\<rparr>, bread], next_id = 3\<rparr>)
   \<and> update_product spec_models 1 (json_request hat_json) two_products =
       (Inr (Json (JObj [(''id'', JNum 1), (''name'', JStr ''hat''),
                         (''description'', JStr ''wool''), (''price'', JNum 12),
                         (''available'', JBool True), (''category'', JStr ''CLOTHS'')]),
             200, []),
        \<lparr>rows = [\<lparr>id' = Some 1, name = ''hat'', description = ''wool'', price = 12,
                   available = True, category = CLOTHS\<rparr>, bread], next_id = 3\<rparr>)"
proof -
  let ?hat = "\<lparr>id' = Some 1, name = ''hat'', description = ''wool'', price = 12,
      available = True, category = CLOTHS\<rparr>"
  let ?after = "\<lparr>rows = [?hat, bread], next_id = 3\<rparr>"
  have h: "headers (json_request hat_json) ''Content-Type'' = Some ''application/json''"
    by (simp add: json_request_def)
  have f: "Product_find spec_models 1 two_products = Some shirt"
    by (simp add: spec_models_def spec_find_def two_products_def shirt_def bread_def)
  have b: "get_json (json_request hat_json) = Inr hat_json"
    by (simp add: json_request_def)
  have d: "Product_deserialize spec_models shirt hat_json = Inr ?hat"
    by (simp add: spec_models_def spec_deserialize_def hat_json_def shirt_def
        category_getattr_def)
  have u: "Product_update spec_models (?hat\<lparr>id' := Some 1\<rparr>) two_products = (Inr (), ?after)"
    by (simp add: spec_models_def spec_update_def two_products_def shirt_def bread_def)
  have "update_product spec_models 1 (json_request hat_json) two_products =
      (Inr (Json (Product_serialize spec_models (?hat\<lparr>id' := Some 1\<rparr>)), 200, []), ?after)"
    using update_forces_path_id [OF h f b d u] by blast
  then have "update_product spec_models 1 (json_request hat_json) two_products =
      (Inr (Json (JObj [(''id'', JNum 1), (''name'', JStr ''hat''),
                         (''description'', JStr ''wool''), (''price'', JNum 12),
                         (''available'', JBool True), (''category'', JStr ''CLOTHS'')]),
             200, []), ?after)"
    by (simp add: spec_models_def spec_serialize_def)
  with h f b d u show ?thesis by simp
qed

text \<open>
  Claim C3. A \<^verbatim>\<open>GET /products\<close> request with a non-empty \<^verbatim>\<open>available\<close> parameter and no
  (or an empty) \<^verbatim>\<open>name\<close> and \<^verbatim>\<open>category\<close> is answered with the products whose availability
  is true, whatever the value \<open>v\<close> of the parameter says, the string \<^verbatim>\<open>false\<close> included.
  The upper-casing function plays no part in it.
\<close>

theorem available_value_ignored:
  assumes "\<not> truthy (args r ''name'')" and "\<not> truthy (args r ''category'')"
    and "args r ''available'' = Some v" and "v \<noteq> []"
  shows "get_all_products str_upper M r s =
           Inr (JsonList (map (Product_serialize M) (Product_find_by_availability M True s)),
                200, [])"
  using assms by (rule list_by_availability)

theorem available_value_ignored_witness:
  "\<not> truthy (args (query [(''available'', ''false'')]) ''name'')
   \<and> \<not> truthy (args (query [(''available'', ''false'')]) ''category'')
   \<and> args (query [(''available'', ''false'')]) ''available'' = Some ''false''
   \<and> ''false'' \<noteq> []
   \<and> get_all_products long_s_upper spec_models (query [(''available'', ''false'')]) two_products =
       Inr (JsonList [spec_serialize shirt], 200, [])"
proof -
  let ?q = "query [(''available'', ''false'')]"
  have a: "\<not> truthy (args ?q ''name'')" by (simp add: query_def)
  have b: "\<not> truthy (args ?q ''category'')" by (simp add: query_def)
  have c: "args ?q ''available'' = Some ''false''" by (simp add: query_def)
  have d: "''false'' \<noteq> []" by simp
  have e: "Product_find_by_availability spec_models True two_products = [shirt]"
    by (simp add: spec_models_def two_products_def shirt_def bread_def)
  have "get_all_products long_s_upper spec_models ?q two_products =
      Inr (JsonList (map (Product_serialize spec_models)
             (Product_find_by_availability spec_models True two_products)), 200, [])"
    using available_value_ignored [OF a b c d] .
  then have "get_all_products long_s_upper spec_models ?q two_products =
      Inr (JsonList [spec_serialize shirt], 200, [])"
    by (simp add: e) (simp add: spec_models_def)
  with a b c d show ?thesis by blast
qed

text \<open>
  Claim C4. A \<^verbatim>\<open>GET /products\<close> request with a non-empty \<^verbatim>\<open>category\<close> parameter and no
  (or an empty) \<^verbatim>\<open>name\<close>, for every upper-casing function \<open>str_upper\<close>. If the upper-cased
  value names no member of \<^verbatim>\<open>Category\<close>, the handler ends in the \<^verbatim>\<open>AttributeError\<close> of the
  lookup, which is no HTTP abort of any status code. If the upper-cased value names the
  member \<open>e\<close>, the handler filters by \<open>e\<close>: the value counts only through its upper-casing.
  In particular, where \<open>str_upper\<close> does on ASCII text what \<^verbatim>\<open>str.upper\<close> does there, an ASCII
  value that differs only in letter case from the upper-case name \<open>n\<close> of a member \<open>e\<close>
  filters by \<open>e\<close>.
\<close>

theorem unknown_category_unhandled:
  "(\<not> truthy (args r ''name'') \<and> args r ''category'' = Some c \<and> c \<noteq> [] \<and>
      Category_getattr M (str_upper c) = None \<longrightarrow>
        get_all_products str_upper M r s = Inl (AttributeError (str_upper c)) \<and>
        (\<forall>code msg. get_all_products str_upper M r s \<noteq> Inl (HTTPException code msg)))
   \<and> (\<not> truthy (args r ''name'') \<and> args r ''category'' = Some c \<and> c \<noteq> [] \<and>
      Category_getattr M (str_upper c) = Some e \<longrightarrow>
        get_all_products str_upper M r s =
          Inr (JsonList (map (Product_serialize M) (Product_find_by_category M e s)),
               200, []))
   \<and> ((\<forall>t. is_ascii t \<longrightarrow> str_upper t = ascii_upper t) \<and>
      \<not> truthy (args r ''name'') \<and> args r ''category'' = Some c \<and> c \<noteq> [] \<and> is_ascii c \<and>
      Category_getattr M n = Some e \<and> ascii_upper n = n \<and> ascii_lower c = ascii_lower n \<longrightarrow>
        get_all_products str_upper M r s =
          Inr (JsonList (map (Product_serialize M) (Product_find_by_category M e s)),
               200, []))"
proof (intro conjI impI)
  assume a: "\<not> truthy (args r ''name'') \<and> args r ''category'' = Some c \<and> c \<noteq> [] \<and>
      Category_getattr M (str_upper c) = None"
  then show u: "get_all_products str_upper M r s = Inl (AttributeError (str_upper c))"
    using list_by_category [of r c str_upper M s] by simp
  show "\<forall>code msg. get_all_products str_upper M r s \<noteq> Inl (HTTPException code msg)"
    by (simp add: u)
next
  assume "\<not> truthy (args r ''name'') \<and> args r ''category'' = Some c \<and> c \<noteq> [] \<and>
      Category_getattr M (str_upper c) = Some e"
  then show "get_all_products str_upper M r s =
          Inr (JsonList (map (Product_serialize M) (Product_find_by_category M e s)),
               200, [])"
    using list_by_category [of r c str_upper M s] by simp
next
  assume a: "(\<forall>t. is_ascii t \<longrightarrow> str_upper t = ascii_upper t) \<and>
      \<not> truthy (args r ''name'') \<and> args r ''category'' = Some c \<and> c \<noteq> [] \<and> is_ascii c \<and>
      Category_getattr M n = Some e \<and> ascii_upper n = n \<and> ascii_lower c = ascii_lower n"
  then have "ascii_upper c = n"
    using same_letters_upper [of c n] by simp
  moreover from a have "str_upper c = ascii_upper c"
    by blast
  ultimately have "Category_getattr M (str_upper c) = Some e"
    using a by simp
  with a show "get_all_products str_upper M r s =
          Inr (JsonList (map (Product_serialize M) (Product_find_by_category M e s)),
               200, [])"
    using list_by_category [of r c str_upper M s] by simp
qed

theorem unknown_category_unhandled_witness:
  "\<not> truthy (args (query [(''category'', ''toys'')]) ''name'')
   \<and> args (query [(''category'', ''toys'')]) ''category'' = Some ''toys''
   \<and> ''toys'' \<noteq> []
   \<and> Category_getattr spec_models (long_s_upper ''toys'') = None
   \<and> get_all_products long_s_upper spec_models (query [(''category'', ''toys'')]) two_products =
       Inl (AttributeError ''TOYS'')
   \<and> \<not> truthy (args (query [(''category'', ''cloth'' @ [CHR 0xC5, CHR 0xBF])]) ''name'')
   \<and> args (query [(''category'', ''cloth'' @ [CHR 0xC5, CHR 0xBF])]) ''category'' =
       Some (''cloth'' @ [CHR 0xC5, CHR 0xBF])
   \<and> ''cloth'' @ [CHR 0xC5, CHR 0xBF] \<noteq> []
   \<and> Category_getattr spec_models (long_s_upper (''cloth'' @ [CHR 0xC5, CHR 0xBF])) =
       Some CLOTHS
   \<and> get_all_products long_s_upper spec_models
        (query [(''category'', ''cloth'' @ [CHR 0xC5, CHR 0xBF])]) two_products =
       Inr (JsonList [spec_serialize shirt], 200, [])
   \<and> \<not> truthy (args (query [(''category'', ''fOod'')]) ''name'')
   \<and> args (query [(''category'', ''fOod'')]) ''category'' = Some ''fOod''
   \<and> ''fOod'' \<noteq> []
   \<and> is_ascii ''fOod''
   \<and> Category_getattr spec_models ''FOOD'' = Some FOOD
   \<and> ascii_upper ''FOOD'' = ''FOOD''
   \<and> ascii_lower ''fOod'' = ascii_lower ''FOOD''
   \<and> get_all_products long_s_upper spec_models (query [(''category'', ''fOod'')])
        two_products = Inr (JsonList [spec_serialize bread], 200, [])"
proof -
  let ?ls = "''cloth'' @ [CHR 0xC5, CHR 0xBF]"
  let ?t = "query [(''category'', ''toys'')]" and ?f = "query [(''category'', ''fOod'')]"
  let ?l = "query [(''category'', ?ls)]"
  have ut: "long_s_upper ''toys'' = ''TOYS''" by code_simp
  have ul: "long_s_upper ?ls = ''CLOTHS''" by code_simp
  have uf: "ascii_upper ''FOOD'' = ''FOOD''" by code_simp
  have lf: "ascii_lower ''fOod'' = ascii_lower ''FOOD''" by code_simp
  have af: "is_ascii ''fOod''" by (simp add: is_ascii_def)
  have agree: "\<forall>t. is_ascii t \<longrightarrow> long_s_upper t = ascii_upper t"
    by (simp add: long_s_upper_ascii)
  have t: "\<not> truthy (args ?t ''name'') \<and> args ?t ''category'' = Some ''toys'' \<and> ''toys'' \<noteq> [] \<and>
      Category_getattr spec_models (long_s_upper ''toys'') = None"
    by (simp only: ut) (simp add: query_def spec_models_def category_getattr_def)
  have l: "\<not> truthy (args ?l ''name'') \<and> args ?l ''category'' = Some ?ls \<and> ?ls \<noteq> [] \<and>
      Category_getattr spec_models (long_s_upper ?ls) = Some CLOTHS"
    by (simp only: ul) (simp add: query_def spec_models_def category_getattr_def)
  have f: "\<not> truthy (args ?f ''name'') \<and> args ?f ''category'' = Some ''fOod'' \<and> ''fOod'' \<noteq> [] \<and>
      is_ascii ''fOod'' \<and> Category_getattr spec_models ''FOOD'' = Some FOOD \<and>
      ascii_upper ''FOOD'' = ''FOOD'' \<and> ascii_lower ''fOod'' = ascii_lower ''FOOD''"
    by (simp only: uf lf af) (simp add: query_def spec_models_def category_getattr_def)
  have byc: "Product_find_by_category spec_models FOOD two_products = [bread]"
    "Product_find_by_category spec_models CLOTHS two_products = [shirt]"
    "Product_serialize spec_models = spec_serialize"
    by (simp_all add: spec_models_def two_products_def shirt_def bread_def)
  have "get_all_products long_s_upper spec_models ?t two_products =
      Inl (AttributeError (long_s_upper ''toys''))"
    using unknown_category_unhandled
      [where r = ?t and c = "''toys''" and str_upper = long_s_upper and M = spec_models
         and s = two_products] t
    by blast
  then have r1: "get_all_products long_s_upper spec_models ?t two_products =
      Inl (AttributeError ''TOYS'')"
    by (simp only: ut)
  have "get_all_products long_s_upper spec_models ?l two_products =
      Inr (JsonList (map (Product_serialize spec_models)
             (Product_find_by_category spec_models CLOTHS two_products)), 200, [])"
    using unknown_category_unhandled
      [where r = ?l and c = ?ls and str_upper = long_s_upper and M = spec_models
         and s = two_products and e = CLOTHS] l
    by blast
  then have r2: "get_all_products long_s_upper spec_models ?l two_products =
      Inr (JsonList [spec_serialize shirt], 200, [])"
    by (simp add: byc)
  have "get_all_products long_s_upper spec_models ?f two_products =
      Inr (JsonList (map (Product_serialize spec_models)
             (Product_find_by_category spec_models FOOD two_products)), 200, [])"
    using unknown_category_unhandled
      [where r = ?f and c = "''fOod''" and str_upper = long_s_upper and M = spec_models
         and s = two_products and n = "''FOOD''" and e = FOOD] f agree
    by blast
  then have r3: "get_all_products long_s_upper spec_models ?f two_products =
      Inr (JsonList [spec_serialize bread], 200, [])"
    by (simp add: byc)
  from t l f r1 r2 r3 show ?thesis by blast
qed

text \<open>
  Claim C5. \<^verbatim>\<open>GET /products\<close> applies at most one filter. A non-empty \<^verbatim>\<open>name\<close> selects
  the filter by name, whatever the other parameters are; otherwise a non-empty
  \<^verbatim>\<open>category\<close> selects the filter by the category that its upper-casing names (or the
  error of C4 where it names none); otherwise a non-empty \<^verbatim>\<open>available\<close> selects the filter
  by availability; otherwise all products are returned. Every response has status 200.
  This holds for every upper-casing function \<open>str_upper\<close>, so for that of Python.
\<close>

theorem filter_precedence:
  "(args r ''name'' = Some n \<and> n \<noteq> [] \<longrightarrow>
      get_all_products str_upper M r s =
        Inr (JsonList (map (Product_serialize M) (Product_find_by_name M n s)), 200, []))
   \<and> (\<not> truthy (args r ''name'') \<and> args r ''category'' = Some c \<and> c \<noteq> [] \<longrightarrow>
      get_all_products str_upper M r s =
        (case Category_getattr M (str_upper c) of
           None \<Rightarrow> Inl (AttributeError (str_upper c))
         | Some e \<Rightarrow>
             Inr (JsonList (map (Product_serialize M) (Product_find_by_category M e s)),
                  200, [])))
   \<and> (\<not> truthy (args r ''name'') \<and> \<not> truthy (args r ''category'') \<and>
      args r ''available'' = Some a \<and> a \<noteq> [] \<longrightarrow>
      get_all_products str_upper M r s =
        Inr (JsonList (map (Product_serialize M) (Product_find_by_availability M True s)),
             200, []))
   \<and> (\<not> truthy (args r ''name'') \<and> \<not> truthy (args r ''category'') \<and>
      \<not> truthy (args r ''available'') \<longrightarrow>
      get_all_products str_upper M r s =
        Inr (JsonList (map (Product_serialize M) (Product_all M s)), 200, []))"
proof (intro conjI impI)
  assume "args r ''name'' = Some n \<and> n \<noteq> []"
  then show "get_all_products str_upper M r s =
      Inr (JsonList (map (Product_serialize M) (Product_find_by_name M n s)), 200, [])"
    by (simp add: list_by_name)
next
  assume "\<not> truthy (args r ''name'') \<and> args r ''category'' = Some c \<and> c \<noteq> []"
  then show "get_all_products str_upper M r s =
      (case Category_getattr M (str_upper c) of
         None \<Rightarrow> Inl (AttributeError (str_upper c))
       | Some e \<Rightarrow>
           Inr (JsonList (map (Product_serialize M) (Product_find_by_category M e s)),
                200, []))"
    by (simp add: list_by_category)
next
  assume "\<not> truthy (args r ''name'') \<and> \<not> truthy (args r ''category'') \<and>
      args r ''available'' = Some a \<and> a \<noteq> []"
  then show "get_all_products str_upper M r s =
      Inr (JsonList (map (Product_serialize M) (Product_find_by_availability M True s)),
           200, [])"
    using list_by_availability [of r a str_upper M s] by simp
next
  assume "\<not> truthy (args r ''name'') \<and> \<not> truthy (args r ''category'') \<and>
      \<not> truthy (args r ''available'')"
  then show "get_all_products str_upper M r s =
      Inr (JsonList (map (Product_serialize M) (Product_all M s)), 200, [])"
    by (simp add: list_all)
qed

theorem filter_precedence_witness:
  "args (query [(''available'', ''yes''), (''category'', ''cloths''), (''name'', ''bread'')])
      ''name'' = Some ''bread''
   \<and> ''bread'' \<noteq> []
   \<and> get_all_products long_s_upper spec_models
        (query [(''available'', ''yes''), (''category'', ''cloths''), (''name'', ''bread'')])
        two_products = Inr (JsonList [spec_serialize bread], 200, [])
   \<and> \<not> truthy (args (query [(''available'', ''yes''), (''category'', ''food'')]) ''name'')
   \<and> args (query [(''available'', ''yes''), (''category'', ''food'')]) ''category'' = Some ''food''
   \<and> ''food'' \<noteq> []
   \<and> get_all_products long_s_upper spec_models (query [(''available'', ''yes''), (''category'', ''food'')])
        two_products = Inr (JsonList [spec_serialize bread], 200, [])
   \<and> \<not> truthy (args (query [(''available'', ''yes'')]) ''name'')
   \<and> \<not> truthy (args (query [(''available'', ''yes'')]) ''category'')
   \<and> args (query [(''available'', ''yes'')]) ''available'' = Some ''yes''
   \<and> ''yes'' \<noteq> []
   \<and> get_all_products long_s_upper spec_models (query [(''available'', ''yes'')]) two_products =
        Inr (JsonList [spec_serialize shirt], 200, [])
   \<and> \<not> truthy (args (query []) ''name'')
   \<and> \<not> truthy (args (query []) ''category'')
   \<and> \<not> truthy (args (query []) ''available'')
   \<and> get_all_products long_s_upper spec_models (query []) two_products =
        Inr (JsonList [spec_serialize shirt, spec_serialize bread], 200, [])"
proof -
  let ?n = "query [(''available'', ''yes''), (''category'', ''cloths''), (''name'', ''bread'')]"
  let ?c = "query [(''available'', ''yes''), (''category'', ''food'')]"
  let ?a = "query [(''available'', ''yes'')]"
  let ?z = "query []"
  have uf: "long_s_upper ''food'' = ''FOOD''" by code_simp
  have hn: "args ?n ''name'' = Some ''bread'' \<and> ''bread'' \<noteq> []"
    by (simp add: query_def)
  have hc: "\<not> truthy (args ?c ''name'') \<and> args ?c ''category'' = Some ''food'' \<and> ''food'' \<noteq> []"
    by (simp add: query_def)
  have ha: "\<not> truthy (args ?a ''name'') \<and> \<not> truthy (args ?a ''category'') \<and>
      args ?a ''available'' = Some ''yes'' \<and> ''yes'' \<noteq> []"
    by (simp add: query_def)
  have hz: "\<not> truthy (args ?z ''name'') \<and> \<not> truthy (args ?z ''category'') \<and>
      \<not> truthy (args ?z ''available'')"
    by (simp add: query_def)
  have rows: "Product_find_by_name spec_models ''bread'' two_products = [bread]"
    "Product_find_by_category spec_models FOOD two_products = [bread]"
    "Product_find_by_availability spec_models True two_products = [shirt]"
    "Product_all spec_models two_products = [shirt, bread]"
    "Category_getattr spec_models ''FOOD'' = Some FOOD"
    "Product_serialize spec_models = spec_serialize"
    by (simp_all add: spec_models_def two_products_def shirt_def bread_def category_getattr_def)
  have rn: "get_all_products long_s_upper spec_models ?n two_products =
      Inr (JsonList [spec_serialize bread], 200, [])"
    using filter_precedence [where r = ?n and n = "''bread''" and str_upper = long_s_upper and M = spec_models
        and s = two_products] hn
    by (simp add: rows)
  have rc: "get_all_products long_s_upper spec_models ?c two_products =
      Inr (JsonList [spec_serialize bread], 200, [])"
    using filter_precedence [where r = ?c and c = "''food''" and str_upper = long_s_upper and M = spec_models
        and s = two_products] hc
    by (simp add: rows uf)
  have ra: "get_all_products long_s_upper spec_models ?a two_products =
      Inr (JsonList [spec_serialize shirt], 200, [])"
    using filter_precedence [where r = ?a and a = "''yes''" and str_upper = long_s_upper and M = spec_models
        and s = two_products] ha
    by (simp add: rows)
  have rz: "get_all_products long_s_upper spec_models ?z two_products =
      Inr (JsonList [spec_serialize shirt, spec_serialize bread], 200, [])"
    using filter_precedence [where r = ?z and str_upper = long_s_upper and M = spec_models and s = two_products] hz
    by (simp add: rows)
  from hn hc ha hz rn rc ra rz show ?thesis by blast
qed

text \<open>
  Claim C6, on the data layer modelled after the spec. \<^verbatim>\<open>DELETE /products/{id}\<close> for an id
  the store knows removes the rows of that id, leaves the others, and answers 204 with an
  empty body; \<^verbatim>\<open>GET /products/{id}\<close> on the store it leaves behind answers 404. For an id the
  store does not know, the delete itself answers 404 and the store is unchanged.
\<close>

theorem delete_then_get_404:
  "(\<forall>found. Product_find spec_models product_id s = Some found \<longrightarrow>
      delete_product spec_models product_id s =
        (Inr (Text [], 204, []),
         s\<lparr>rows := filter (\<lambda>q. id' q \<noteq> Some product_id) (rows s)\<rparr>)
      \<and> get_product spec_models product_id (snd (delete_product spec_models product_id s)) =
          Inl (HTTPException 404
                 (''Product with id ['' @ str_int product_id @ ''] not found'')))
   \<and> (Product_find spec_models product_id s = None \<longrightarrow>
      delete_product spec_models product_id s =
        (Inl (HTTPException 404
                (''Product with product_id ['' @ str_int product_id @ ''] not found'')), s))"
proof (intro conjI impI allI)
  fix found
  assume "Product_find spec_models product_id s = Some found"
  then have f: "spec_find product_id s = Some found"
    by (simp add: spec_models_def)
  then have i: "id' found = Some product_id"
    by (rule spec_find_id)
  from f i show d: "delete_product spec_models product_id s =
        (Inr (Text [], 204, []),
         s\<lparr>rows := filter (\<lambda>q. id' q \<noteq> Some product_id) (rows s)\<rparr>)"
    by (simp add: delete_product_def spec_models_def spec_delete_def status_defs)
  show "get_product spec_models product_id (snd (delete_product spec_models product_id s)) =
          Inl (HTTPException 404
                 (''Product with id ['' @ str_int product_id @ ''] not found''))"
    using spec_find_after_delete [of product_id s]
    by (simp add: d) (simp add: get_product_def spec_models_def status_defs)
next
  assume "Product_find spec_models product_id s = None"
  then show "delete_product spec_models product_id s =
        (Inl (HTTPException 404
                (''Product with product_id ['' @ str_int product_id @ ''] not found'')), s)"
    by (simp add: delete_product_def status_defs)
qed

theorem delete_then_get_404_witness:
  "Product_find spec_models 1 two_products = Some shirt
   \<and> delete_product spec_models 1 two_products =
       (Inr (Text [], 204, []), \<lparr>rows = [bread], next_id = 3\<rparr>)
   \<and> get_product spec_models 1 \<lparr>rows = [bread], next_id = 3\<rparr> =
       Inl (HTTPException 404 ''Product with id [1] not found'')
   \<and> Product_find spec_models 1 \<lparr>rows = [bread], next_id = 3\<rparr> = None
   \<and> delete_product spec_models 1 \<lparr>rows = [bread], next_id = 3\<rparr> =
       (Inl (HTTPException 404 ''Product with product_id [1] not found''),
        \<lparr>rows = [bread], next_id = 3\<rparr>)"
proof -
  let ?after = "\<lparr>rows = [bread], next_id = 3\<rparr>"
  have f: "Product_find spec_models 1 two_products = Some shirt"
    by (simp add: spec_models_def spec_find_def two_products_def shirt_def bread_def)
  have n: "Product_find spec_models 1 ?after = None"
    by (simp add: spec_models_def spec_find_def bread_def)
  have one: "str_int 1 = ''1''"
    by (simp add: str_int_def str_nat.simps digit_def)
  have left: "two_products\<lparr>rows := filter (\<lambda>q. id' q \<noteq> Some 1) (rows two_products)\<rparr> = ?after"
    by (simp add: two_products_def shirt_def bread_def)
  have d: "delete_product spec_models 1 two_products = (Inr (Text [], 204, []), ?after)"
    using delete_then_get_404 [of 1 two_products] f by (simp add: left)
  have "get_product spec_models 1 (snd (delete_product spec_models 1 two_products)) =
      Inl (HTTPException 404 (''Product with id ['' @ str_int 1 @ ''] not found''))"
    using delete_then_get_404 [of 1 two_products] f by blast
  then have g: "get_product spec_models 1 ?after =
      Inl (HTTPException 404 ''Product with id [1] not found'')"
    by (simp add: d one)
  have d2: "delete_product spec_models 1 ?after =
      (Inl (HTTPException 404 ''Product with product_id [1] not found''), ?after)"
    using delete_then_get_404 [of 1 ?after] n by (simp add: one)
  from f d g n d2 show ?thesis by blast
qed

text \<open>
  Claim C7. \<^verbatim>\<open>GET /products/{id}\<close> is aborted with HTTP 404 when the store has no product of
  that id, with a message that contains the decimal id; otherwise the response is the
  serialized product with HTTP 200.
\<close>

theorem get_product_404_or_200:
  "(Product_find M product_id s = None \<longrightarrow>
      get_product M product_id s =
        Inl (HTTPException 404 (''Product with id ['' @ str_int product_id @ ''] not found''))
      \<and> sublist (str_int product_id)
          (''Product with id ['' @ str_int product_id @ ''] not found''))
   \<and> (\<forall>found. Product_find M product_id s = Some found \<longrightarrow>
      get_product M product_id s = Inr (Json (Product_serialize M found), 200, []))"
proof (intro conjI impI allI)
  assume "Product_find M product_id s = None"
  then show "get_product M product_id s =
      Inl (HTTPException 404 (''Product with id ['' @ str_int product_id @ ''] not found''))"
    by (simp add: get_product_def status_defs)
next
  show "sublist (str_int product_id)
      (''Product with id ['' @ str_int product_id @ ''] not found'')"
    by (rule not_found_names_id)
next
  fix found
  assume "Product_find M product_id s = Some found"
  then show "get_product M product_id s = Inr (Json (Product_serialize M found), 200, [])"
    by (simp add: get_product_def status_defs)
qed

theorem get_product_404_or_200_witness:
  "Product_find spec_models 999999 two_products = None
   \<and> get_product spec_models 999999 two_products =
       Inl (HTTPException 404 ''Product with id [999999] not found'')
   \<and> Product_find spec_models 1 two_products = Some shirt
   \<and> get_product spec_models 1 two_products = Inr (Json (spec_serialize shirt), 200, [])"
proof -
  have n: "Product_find spec_models 999999 two_products = None"
    by (simp add: spec_models_def spec_find_def two_products_def shirt_def bread_def)
  have f: "Product_find spec_models 1 two_products = Some shirt"
    by (simp add: spec_models_def spec_find_def two_products_def shirt_def bread_def)
  have d: "str_int 999999 = ''999999''"
    by (simp add: str_int_def str_nat.simps digit_def)
  have r1: "get_product spec_models 999999 two_products =
      Inl (HTTPException 404 ''Product with id [999999] not found'')"
    using get_product_404_or_200 [of spec_models 999999 two_products] n by (simp add: d)
  have r2: "get_product spec_models 1 two_products = Inr (Json (spec_serialize shirt), 200, [])"
    using get_product_404_or_200 [of spec_models 1 two_products] f
    by (simp add: spec_models_def)
  from n f r1 r2 show ?thesis by blast
qed

text \<open>
  Claim C8. A \<^verbatim>\<open>POST /products\<close> request with content type \<^verbatim>\<open>application/json\<close> whose body
  parses and deserializes onto a fresh product, which the store then creates: the response
  is the serialized product as the store returned it (with the id it assigned), the status
  is 201, and the only header is \<^verbatim>\<open>Location\<close> with the fixed value \<^verbatim>\<open>/\<close>, which does not
  depend on the product.
\<close>

theorem create_returns_201_placeholder:
  assumes "headers r ''Content-Type'' = Some ''application/json''"
    and "get_json r = Inr body"
    and "Product_deserialize M (Product_new M) body = Inr product"
    and "Product_create M product s = (Inr created, s')"
  shows "create_products M r s =
           (Inr (Json (Product_serialize M created), 201, [(''Location'', ''/'')]), s')"
  using assms
  by (simp add: create_products_def check_content_type_accept status_defs)

theorem create_returns_201_placeholder_witness:
  "headers (json_request hat_json) ''Content-Type'' = Some ''application/json''
   \<and> get_json (json_request hat_json) = Inr hat_json
   \<and> Product_deserialize spec_models (Product_new spec_models) hat_json =
       Inr \<lparr>id' = None, name = ''hat'', description = ''wool'', price = 12,
            available = True, category = CLOTHS\<rparr>
   \<and> Product_create spec_models
        \<lparr>id' = None, name = ''hat'', description = ''wool'', price = 12,
         available = True, category = CLOTHS\<rparr> two_products =
       (Inr \<lparr>id' = Some 3, name = ''hat'', description = ''wool'', price = 12,
             available = True, category = CLOTHS\<rparr>,
        \<lparr>rows = [shirt, bread,
                  \<lparr>id' = Some 3, name = ''hat'', description = ''wool'', price = 12,
                   available = True, category = CLOTHS\<rparr>], next_id = 4\<rparr>)
   \<and> create_products spec_models (json_request hat_json) two_products =
       (Inr (Json (JObj [(''id'', JNum 3), (''name'', JStr ''hat''),
                         (''description'', JStr ''wool''), (''price'', JNum 12),
                         (''available'', JBool True), (''category'', JStr ''CLOTHS'')]),
             201, [(''Location'', ''/'')]),
        \<lparr>rows = [shirt, bread,
                  \<lparr>id' = Some 3, name = ''hat'', description = ''wool'', price = 12,
                   available = True, category = CLOTHS\<rparr>], next_id = 4\<rparr>)"
proof -
  let ?new = "\<lparr>id' = None, name = ''hat'', description = ''wool'', price = 12,
      available = True, category = CLOTHS\<rparr>"
  let ?hat = "\<lparr>id' = Some 3, name = ''hat'', description = ''wool'', price = 12,
      available = True, category = CLOTHS\<rparr>"
  let ?after = "\<lparr>rows = [shirt, bread, ?hat], next_id = 4\<rparr>"
  have h: "headers (json_request hat_json) ''Content-Type'' = Some ''application/json''"
    by (simp add: json_request_def)
  have b: "get_json (json_request hat_json) = Inr hat_json"
    by (simp add: json_request_def)
  have d: "Product_deserialize spec_models (Product_new spec_models) hat_json = Inr ?new"
    by (simp add: spec_models_def spec_deserialize_def spec_new_def hat_json_def
        category_getattr_def)
  have c: "Product_create spec_models ?new two_products = (Inr ?hat, ?after)"
    by (simp add: spec_models_def spec_create_def two_products_def Let_def)
  have "create_products spec_models (json_request hat_json) two_products =
      (Inr (Json (Product_serialize spec_models ?hat), 201, [(''Location'', ''/'')]), ?after)"
    using create_returns_201_placeholder [OF h b d c] .
  then have "create_products spec_models (json_request hat_json) two_products =
      (Inr (Json (JObj [(''id'', JNum 3), (''name'', JStr ''hat''),
                         (''description'', JStr ''wool''), (''price'', JNum 12),
                         (''available'', JBool True), (''category'', JStr ''CLOTHS'')]),
             201, [(''Location'', ''/'')]), ?after)"
    by (simp add: spec_models_def spec_serialize_def)
  with h b d c show ?thesis by simp
qed

text \<open>
  Claim C9. A \<^verbatim>\<open>name\<close>, \<^verbatim>\<open>category\<close> or \<^verbatim>\<open>available\<close> parameter that is present with the empty
  string as value is treated as if it were absent: removing it from the request does not
  change the outcome of \<^verbatim>\<open>GET /products\<close>. When it is the only parameter, all products are
  returned with HTTP 200. This holds for every upper-casing function \<open>str_upper\<close>.
\<close>

theorem empty_value_as_absent:
  assumes "k \<in> {''name'', ''category'', ''available''}" and "args r k = Some []"
  shows "get_all_products str_upper M r s = get_all_products str_upper M (r\<lparr>args := (args r)(k := None)\<rparr>) s
       \<and> ((\<forall>k'. k' \<noteq> k \<longrightarrow> args r k' = None) \<longrightarrow>
            get_all_products str_upper M r s =
              Inr (JsonList (map (Product_serialize M) (Product_all M s)), 200, []))"
proof
  have dead: "\<not> truthy (args r k)"
    using assms(2) by (simp add: py_bool_def)
  have same: "args (r\<lparr>args := (args r)(k := None)\<rparr>) x = args r x \<or>
      (\<not> truthy (args r x) \<and> \<not> truthy (args (r\<lparr>args := (args r)(k := None)\<rparr>) x))" for x
    using dead by (cases "x = k") simp_all
  show "get_all_products str_upper M r s = get_all_products str_upper M (r\<lparr>args := (args r)(k := None)\<rparr>) s"
    using get_all_products_reads [OF same same same, of str_upper M s] by simp
  show "(\<forall>k'. k' \<noteq> k \<longrightarrow> args r k' = None) \<longrightarrow>
            get_all_products str_upper M r s =
              Inr (JsonList (map (Product_serialize M) (Product_all M s)), 200, [])"
  proof
    assume others: "\<forall>k'. k' \<noteq> k \<longrightarrow> args r k' = None"
    have "\<not> truthy (args r x)" for x
      using dead others by (cases "x = k") simp_all
    then show "get_all_products str_upper M r s =
              Inr (JsonList (map (Product_serialize M) (Product_all M s)), 200, [])"
      by (simp add: list_all)
  qed
qed

theorem empty_value_as_absent_witness:
  "''name'' \<in> {''name'', ''category'', ''available''}
   \<and> args (query [(''name'', ''''), (''category'', ''food'')]) ''name'' = Some []
   \<and> get_all_products long_s_upper spec_models (query [(''name'', ''''), (''category'', ''food'')])
        two_products = Inr (JsonList [spec_serialize bread], 200, [])
   \<and> get_all_products long_s_upper spec_models
        ((query [(''name'', ''''), (''category'', ''food'')])
           \<lparr>args := (args (query [(''name'', ''''), (''category'', ''food'')]))
              (''name'' := None)\<rparr>)
        two_products = Inr (JsonList [spec_serialize bread], 200, [])
   \<and> ''category'' \<in> {''name'', ''category'', ''available''}
   \<and> args (query [(''category'', '''')]) ''category'' = Some []
   \<and> get_all_products long_s_upper spec_models (query [(''category'', '''')]) two_products =
        Inr (JsonList [spec_serialize shirt, spec_serialize bread], 200, [])
   \<and> ''available'' \<in> {''name'', ''category'', ''available''}
   \<and> args (query [(''available'', '''')]) ''available'' = Some []
   \<and> get_all_products long_s_upper spec_models (query [(''available'', '''')]) two_products =
        Inr (JsonList [spec_serialize shirt, spec_serialize bread], 200, [])"
proof -
  let ?n = "query [(''name'', ''''), (''category'', ''food'')]"
  let ?c = "query [(''category'', '''')]"
  let ?a = "query [(''available'', '''')]"
  have kn: "''name'' \<in> {''name'', ''category'', ''available''}"
    and kc: "''category'' \<in> {''name'', ''category'', ''available''}"
    and ka: "''available'' \<in> {''name'', ''category'', ''available''}"
    by simp_all
  have en: "args ?n ''name'' = Some []" and ec: "args ?c ''category'' = Some []"
    and ea: "args ?a ''available'' = Some []"
    by (simp_all add: query_def)
  have oc: "\<forall>k'. k' \<noteq> ''category'' \<longrightarrow> args ?c k' = None"
    and oa: "\<forall>k'. k' \<noteq> ''available'' \<longrightarrow> args ?a k' = None"
    by (simp_all add: query_def)
  have uf: "long_s_upper ''food'' = ''FOOD''" by code_simp
  have rows: "Product_find_by_category spec_models FOOD two_products = [bread]"
    "Product_all spec_models two_products = [shirt, bread]"
    "Category_getattr spec_models ''FOOD'' = Some FOOD"
    "Product_serialize spec_models = spec_serialize"
    by (simp_all add: spec_models_def two_products_def shirt_def bread_def category_getattr_def)
  have dropped: "get_all_products long_s_upper spec_models (?n\<lparr>args := (args ?n)(''name'' := None)\<rparr>)
      two_products = Inr (JsonList [spec_serialize bread], 200, [])"
    using list_by_category [of "?n\<lparr>args := (args ?n)(''name'' := None)\<rparr>" "''food''"
        long_s_upper spec_models two_products]
    by (simp add: query_def uf rows)
  have "get_all_products long_s_upper spec_models ?n two_products =
      get_all_products long_s_upper spec_models (?n\<lparr>args := (args ?n)(''name'' := None)\<rparr>) two_products"
    using empty_value_as_absent [OF kn en, of long_s_upper spec_models two_products] by blast
  with dropped have rn: "get_all_products long_s_upper spec_models ?n two_products =
      Inr (JsonList [spec_serialize bread], 200, [])"
    by (simp only:)
  have "get_all_products long_s_upper spec_models ?c two_products =
      Inr (JsonList (map (Product_serialize spec_models) (Product_all spec_models two_products)),
           200, [])"
    using empty_value_as_absent [OF kc ec, of long_s_upper spec_models two_products] oc by blast
  then have rc: "get_all_products long_s_upper spec_models ?c two_products =
      Inr (JsonList [spec_serialize shirt, spec_serialize bread], 200, [])"
    by (simp add: rows)
  have "get_all_products long_s_upper spec_models ?a two_products =
      Inr (JsonList (map (Product_serialize spec_models) (Product_all spec_models two_products)),
           200, [])"
    using empty_value_as_absent [OF ka ea, of long_s_upper spec_models two_products] oa by blast
  then have ra: "get_all_products long_s_upper spec_models ?a two_products =
      Inr (JsonList [spec_serialize shirt, spec_serialize bread], 200, [])"
    by (simp add: rows)
  from kn kc ka en ec ea dropped rn rc ra show ?thesis by blast
qed

text \<open>
  Claim C10. In \<^verbatim>\<open>PUT /products/{id}\<close> the content type is checked before the product is
  looked up: without the header \<^verbatim>\<open>Content-Type: application/json\<close> the outcome is HTTP 415
  for every id, known to the store or not, it is never the 404 of a failed lookup, and the
  store is unchanged.
\<close>

theorem update_guard_precedes_lookup:
  assumes "headers r ''Content-Type'' \<noteq> Some ''application/json''"
  shows "update_product M product_id r s =
           (Inl (HTTPException 415 ''Content-Type must be application/json''), s)
       \<and> (\<forall>msg. fst (update_product M product_id r s) \<noteq> Inl (HTTPException 404 msg))"
proof -
  have "check_content_type ''application/json'' r =
      Inl (HTTPException 415 ''Content-Type must be application/json'')"
    using assms check_content_type_reject [of r "''application/json''"] by simp
  then have "update_product M product_id r s =
      (Inl (HTTPException 415 ''Content-Type must be application/json''), s)"
    by (simp add: update_product_def)
  then show ?thesis by simp
qed

theorem update_guard_precedes_lookup_witness:
  "headers (bare_request hat_json) ''Content-Type'' \<noteq> Some ''application/json''
   \<and> Product_find spec_models 7 two_products = None
   \<and> update_product spec_models 7 (bare_request hat_json) two_products =
       (Inl (HTTPException 415 ''Content-Type must be application/json''), two_products)
   \<and> headers (plain_request hat_json) ''Content-Type'' \<noteq> Some ''application/json''
   \<and> update_product spec_models 7 (plain_request hat_json) two_products =
       (Inl (HTTPException 415 ''Content-Type must be application/json''), two_products)"
proof -
  have a: "headers (bare_request hat_json) ''Content-Type'' \<noteq> Some ''application/json''"
    by (simp add: bare_request_def)
  have p: "headers (plain_request hat_json) ''Content-Type'' \<noteq> Some ''application/json''"
    by (simp add: plain_request_def)
  have n: "Product_find spec_models 7 two_products = None"
    by (simp add: spec_models_def spec_find_def two_products_def shirt_def bread_def)
  from a p n
    update_guard_precedes_lookup [OF a, of spec_models 7 two_products]
    update_guard_precedes_lookup [OF p, of spec_models 7 two_products]
  show ?thesis by blast
qed

end
